theory Spec2Isabelle
  imports Main
begin

section \<open>The approval reconciler of the session hook (src/lib/hooks/useAuth.ts)\<close>

text \<open>
  The hook \<^verbatim>\<open>useAuth\<close> keeps five pieces of component state (\<^verbatim>\<open>user\<close>,
  \<^verbatim>\<open>profile\<close>, \<^verbatim>\<open>loading\<close>, \<^verbatim>\<open>isApproved\<close>, \<^verbatim>\<open>isPendingApproval\<close>) and,
  in an effect that depends on \<^verbatim>\<open>user\<close>, runs the asynchronous function
  \<^verbatim>\<open>loadProfile\<close>. That function reads the tables \<^verbatim>\<open>profiles\<close> and
  \<^verbatim>\<open>pending_users\<close> of the hosted store, may write \<^verbatim>\<open>profiles.is_approved\<close>,
  may sign the user out, show a toast and navigate to \<^verbatim>\<open>/login\<close>.

  The embedding passes the state explicitly: one record holds the two tables, the
  session, the component state and the list of the calls made to the collaborators, in
  the order in which they were made.
\<close>

subsection \<open>Data\<close>

text \<open>
  \<^verbatim>\<open>interface UserProfile\<close>. The field \<^verbatim>\<open>id\<close> is called \<open>profile_id\<close> here.
  \<^verbatim>\<open>is_approved?: boolean\<close> is \<open>None\<close> when the column is null or missing.
\<close>

record UserProfile =
  profile_id :: string
  full_name :: "string option"
  department :: "string option"
  email :: "string option"
  is_approved :: "bool option"

text \<open>The \<^verbatim>\<open>User\<close> of the auth library; \<^verbatim>\<open>loadProfile\<close> reads its \<^verbatim>\<open>id\<close> only.\<close>

record User =
  user_id :: string

text \<open>A row of \<^verbatim>\<open>pending_users\<close>: the key the query filters on and the selected column.\<close>

record PendingUser =
  pending_id :: string
  status :: string

text \<open>The argument of \<^verbatim>\<open>toast\<close>.\<close>

record ToastMsg =
  title :: string
  description :: string
  variant :: "string option"
  duration :: "nat option"

text \<open>The calls to the collaborators, as they are recorded.\<close>

datatype effect =
  Select_profiles string
  | Select_pending_users string
  | Update_profiles string bool
  | SignOut
  | Toast ToastMsg
  | Navigate string

text \<open>
  How the hosted backend answers the calls of one run: each call either goes through or
  fails. A failed call returns \<^verbatim>\<open>{ data: null, error }\<close>; it does not throw
  (the contract of the collaborators: a failure is a returned value).
\<close>

record backend =
  profiles_fetch_ok :: bool
  pending_fetch_ok :: bool
  update_ok :: bool
  signOut_ok :: bool

record world =
  profiles :: "UserProfile list"
  pending_users :: "PendingUser list"
  session :: bool
  user :: "User option"
  profile :: "UserProfile option"
  isApproved :: "bool option"
  isPendingApproval :: bool
  effects :: "effect list"

subsection \<open>The collaborators\<close>

text \<open>\<^verbatim>\<open>.single()\<close>: the row when exactly one row matches, no data otherwise.\<close>

fun single :: "'a list \<Rightarrow> 'a option" where
  "single [r] = Some r"
| "single _ = None"

text \<open>
  \<^verbatim>\<open>supabase.from("profiles").select(...).eq("id", i).single()\<close>: the value bound to
  \<^verbatim>\<open>data\<close>.
\<close>

definition select_profiles :: "backend \<Rightarrow> string \<Rightarrow> world \<Rightarrow> UserProfile option" where
  "select_profiles b i w =
     (if profiles_fetch_ok b then single (filter (\<lambda>r. profile_id r = i) (profiles w))
      else None)"

text \<open>\<^verbatim>\<open>supabase.from("pending_users").select("status").eq("id", i).single()\<close>.\<close>

definition select_pending_users :: "backend \<Rightarrow> string \<Rightarrow> world \<Rightarrow> PendingUser option" where
  "select_pending_users b i w =
     (if pending_fetch_ok b then single (filter (\<lambda>r. pending_id r = i) (pending_users w))
      else None)"

text \<open>
  \<^verbatim>\<open>supabase.from("profiles").update({ is_approved: v }).eq("id", i)\<close>: every row
  with that id is written when the call goes through, none when it fails; the result of
  the call is not read by the caller.
\<close>

definition update_profiles :: "backend \<Rightarrow> string \<Rightarrow> bool \<Rightarrow> world \<Rightarrow> world" where
  "update_profiles b i v w =
     w\<lparr>profiles :=
          (if update_ok b
           then map (\<lambda>r. if profile_id r = i then r\<lparr>is_approved := Some v\<rparr> else r) (profiles w)
           else profiles w),
       effects := effects w @ [Update_profiles i v]\<rparr>"

text \<open>\<^verbatim>\<open>supabase.auth.signOut()\<close>: the session ends when the call goes through.\<close>

definition signOut :: "backend \<Rightarrow> world \<Rightarrow> world" where
  "signOut b w =
     w\<lparr>session := (session w \<and> \<not> signOut_ok b), effects := effects w @ [SignOut]\<rparr>"

definition toast :: "ToastMsg \<Rightarrow> world \<Rightarrow> world" where
  "toast t w = w\<lparr>effects := effects w @ [Toast t]\<rparr>"

definition navigate :: "string \<Rightarrow> world \<Rightarrow> world" where
  "navigate r w = w\<lparr>effects := effects w @ [Navigate r]\<rparr>"

definition access_denied_toast :: ToastMsg where
  "access_denied_toast =
     \<lparr>title = ''Access Denied'',
      description = ''Your account has been rejected by an administrator.'',
      variant = Some ''destructive'',
      duration = None\<rparr>"

definition pending_approval_toast :: ToastMsg where
  "pending_approval_toast =
     \<lparr>title = ''Account Pending Approval'',
      description = ''Your account is pending administrator approval. You'll be notified when your account is approved.'',
      variant = None,
      duration = Some 6000\<rparr>"

subsection \<open>\<^verbatim>\<open>loadProfile\<close>\<close>

text \<open>
  The function of the second effect, with the \<^verbatim>\<open>user\<close> it closed over as an argument.
  The branches are those of the source, in its order.
\<close>

definition loadProfile :: "backend \<Rightarrow> User option \<Rightarrow> world \<Rightarrow> world" where
  "loadProfile b u w =
     (case u of
        None \<Rightarrow> w\<lparr>profile := None, isApproved := None, isPendingApproval := False\<rparr>
      | Some usr \<Rightarrow>
         (let data = select_profiles b (user_id usr) w;
              w1 = w\<lparr>effects := effects w @ [Select_profiles (user_id usr)]\<rparr>;
              w2 = w1\<lparr>profile := data\<rparr>
          in case data of
               None \<Rightarrow> w2
             | Some d \<Rightarrow>
                if is_approved d = Some False then
                  navigate ''/login'' (toast access_denied_toast (signOut b
                    (w2\<lparr>isApproved := Some False, isPendingApproval := False\<rparr>)))
                else if is_approved d = Some True then
                  w2\<lparr>isApproved := Some True, isPendingApproval := False\<rparr>
                else
                  (let pendingData = select_pending_users b (user_id usr) w2;
                       w3 = w2\<lparr>effects := effects w2 @ [Select_pending_users (user_id usr)]\<rparr>
                   in case pendingData of
                        None \<Rightarrow> w3\<lparr>isApproved := Some True, isPendingApproval := False\<rparr>
                      | Some pd \<Rightarrow>
                         if status pd = ''pending'' then
                           navigate ''/login'' (toast pending_approval_toast (signOut b
                             (w3\<lparr>isApproved := Some False, isPendingApproval := True\<rparr>)))
                         else if status pd = ''approved'' then
                           update_profiles b (user_id usr) True
                             (w3\<lparr>isApproved := Some True, isPendingApproval := False\<rparr>)
                         else if status pd = ''rejected'' then
                           navigate ''/login'' (toast access_denied_toast (signOut b
                             (update_profiles b (user_id usr) False
                               (w3\<lparr>isApproved := Some False, isPendingApproval := False\<rparr>))))
                         else w3\<lparr>isApproved := Some True, isPendingApproval := False\<rparr>)))"


subsection \<open>\<^verbatim>\<open>loadProfile\<close> between its \<^verbatim>\<open>await\<close>s\<close>

text \<open>
  An \<^verbatim>\<open>async\<close> function runs without interruption up to its next \<^verbatim>\<open>await\<close>,
  where it makes the call and is suspended; it is resumed with the answer. The points at
  which \<^verbatim>\<open>loadProfile\<close> can be suspended are its six \<^verbatim>\<open>await\<close>s: the two
  selects (resumed with the value of \<^verbatim>\<open>data\<close>, of \<^verbatim>\<open>pendingData\<close>), the two
  updates, and \<^verbatim>\<open>signOut\<close>, after which the toast of the branch (two branches share
  one) and the navigation remain. The backend answers a call at the moment the call is
  made: the answer of a select is kept with the suspended run, and a write or a
  sign-out has happened when the run is suspended on it.
\<close>

datatype pc =
  Await_profiles "UserProfile option"
  | Await_pending_users "PendingUser option"
  | Await_update_approved
  | Await_update_rejected
  | Await_signOut ToastMsg
  | Returned

text \<open>From the call of \<^verbatim>\<open>loadProfile()\<close> to the first \<^verbatim>\<open>await\<close> or \<^verbatim>\<open>return\<close>.\<close>

definition start :: "backend \<Rightarrow> User option \<Rightarrow> world \<Rightarrow> pc \<times> world" where
  "start b u w =
     (case u of
        None \<Rightarrow> (Returned, w\<lparr>profile := None, isApproved := None, isPendingApproval := False\<rparr>)
      | Some usr \<Rightarrow>
         (Await_profiles (select_profiles b (user_id usr) w),
          w\<lparr>effects := effects w @ [Select_profiles (user_id usr)]\<rparr>))"

text \<open>From one \<^verbatim>\<open>await\<close> to the next \<^verbatim>\<open>await\<close> or \<^verbatim>\<open>return\<close>.\<close>

fun resume :: "backend \<Rightarrow> User \<Rightarrow> pc \<Rightarrow> world \<Rightarrow> pc \<times> world" where
  "resume b usr (Await_profiles data) w =
     (let w2 = w\<lparr>profile := data\<rparr>
      in case data of
           None \<Rightarrow> (Returned, w2)
         | Some d \<Rightarrow>
            if is_approved d = Some False then
              (Await_signOut access_denied_toast,
               signOut b (w2\<lparr>isApproved := Some False, isPendingApproval := False\<rparr>))
            else if is_approved d = Some True then
              (Returned, w2\<lparr>isApproved := Some True, isPendingApproval := False\<rparr>)
            else
              (Await_pending_users (select_pending_users b (user_id usr) w2),
               w2\<lparr>effects := effects w2 @ [Select_pending_users (user_id usr)]\<rparr>))"
| "resume b usr (Await_pending_users pendingData) w =
     (case pendingData of
        None \<Rightarrow> (Returned, w\<lparr>isApproved := Some True, isPendingApproval := False\<rparr>)
      | Some pd \<Rightarrow>
         if status pd = ''pending'' then
           (Await_signOut pending_approval_toast,
            signOut b (w\<lparr>isApproved := Some False, isPendingApproval := True\<rparr>))
         else if status pd = ''approved'' then
           (Await_update_approved,
            update_profiles b (user_id usr) True
              (w\<lparr>isApproved := Some True, isPendingApproval := False\<rparr>))
         else if status pd = ''rejected'' then
           (Await_update_rejected,
            update_profiles b (user_id usr) False
              (w\<lparr>isApproved := Some False, isPendingApproval := False\<rparr>))
         else (Returned, w\<lparr>isApproved := Some True, isPendingApproval := False\<rparr>))"
| "resume b usr Await_update_approved w = (Returned, w)"
| "resume b usr Await_update_rejected w = (Await_signOut access_denied_toast, signOut b w)"
| "resume b usr (Await_signOut t) w = (Returned, navigate ''/login'' (toast t w))"
| "resume b usr Returned w = (Returned, w)"

text \<open>A run that nothing interrupts: resumed at most \<open>n\<close> times, one after the other.\<close>

fun resumes :: "nat \<Rightarrow> backend \<Rightarrow> User \<Rightarrow> pc \<times> world \<Rightarrow> pc \<times> world" where
  "resumes 0 b usr s = s"
| "resumes (Suc n) b usr s = resumes n b usr (resume b usr (fst s) (snd s))"

definition run :: "nat \<Rightarrow> backend \<Rightarrow> User option \<Rightarrow> world \<Rightarrow> pc \<times> world" where
  "run n b u w =
     (case u of None \<Rightarrow> start b u w | Some usr \<Rightarrow> resumes n b usr (start b u w))"

subsection \<open>Several runs in flight\<close>

text \<open>
  The hook: \<^verbatim>\<open>setUser\<close> changes \<^verbatim>\<open>user\<close>, and the effect (dependencies
  \<^verbatim>\<open>[user, toast, navigate]\<close>, no cleanup function) calls \<^verbatim>\<open>loadProfile()\<close> for the new
  value while the runs started for earlier values stay in flight. A task is such a run:
  the user it closed over, the answers of the backend to its calls and the point where
  it is suspended. \<open>Trigger\<close> is a change of \<^verbatim>\<open>user\<close> from any source (the first
  effect sets it from \<^verbatim>\<open>getSession\<close> and from every auth event, also the one that
  follows a sign-out); \<open>Resume n\<close> lets the \<open>n\<close>-th run continue to its next
  \<^verbatim>\<open>await\<close>. The order of the actions is not constrained.
\<close>

record task =
  task_backend :: backend
  task_user :: User
  task_pc :: pc

datatype action =
  Trigger "User option" backend
  | Resume nat

fun act :: "action \<Rightarrow> world \<times> task list \<Rightarrow> world \<times> task list" where
  "act (Trigger u b) (w, ts) =
     (let (p, w') = start b u (w\<lparr>user := u\<rparr>)
      in (w', (case u of
                 None \<Rightarrow> ts
               | Some usr \<Rightarrow> ts @ [\<lparr>task_backend = b, task_user = usr, task_pc = p\<rparr>])))"
| "act (Resume n) (w, ts) =
     (if n < length ts then
        (let t = ts ! n;
             (p, w') = resume (task_backend t) (task_user t) (task_pc t) w
         in (w', ts[n := t\<lparr>task_pc := p\<rparr>]))
      else (w, ts))"

fun exec :: "action list \<Rightarrow> world \<times> task list \<Rightarrow> world \<times> task list" where
  "exec [] s = s"
| "exec (a # as) s = exec as (act a s)"

subsection \<open>The hook when it is mounted, and example data\<close>

text \<open>The initial values of the \<^verbatim>\<open>useState\<close> calls, over given tables and a live session.\<close>

definition mounted :: "UserProfile list \<Rightarrow> PendingUser list \<Rightarrow> world" where
  "mounted ps pus =
     \<lparr>profiles = ps, pending_users = pus, session = True, user = None,
      profile = None, isApproved = None, isPendingApproval = False, effects = []\<rparr>"

definition row :: "string \<Rightarrow> bool option \<Rightarrow> UserProfile" where
  "row i a = \<lparr>profile_id = i, full_name = None, department = None, email = None, is_approved = a\<rparr>"

definition pending_row :: "string \<Rightarrow> string \<Rightarrow> PendingUser" where
  "pending_row i s = \<lparr>pending_id = i, status = s\<rparr>"

definition mk_user :: "string \<Rightarrow> User" where
  "mk_user i = \<lparr>user_id = i\<rparr>"

definition backend_ok :: backend where
  "backend_ok = \<lparr>profiles_fetch_ok = True, pending_fetch_ok = True, update_ok = True, signOut_ok = True\<rparr>"


text \<open>Runs that follow one another, each completed before the next identity change.\<close>

fun reconcile_all :: "(User option \<times> backend) list \<Rightarrow> world \<Rightarrow> world" where
  "reconcile_all [] w = w"
| "reconcile_all ((u, b) # rs) w = reconcile_all rs (loadProfile b u (w\<lparr>user := u\<rparr>))"

text \<open>The pending flag is shown only together with \<^verbatim>\<open>isApproved = false\<close>.\<close>

definition pending_implies_rejected :: "world \<Rightarrow> bool" where
  "pending_implies_rejected w = (isPendingApproval w \<longrightarrow> isApproved w = Some False)"



section \<open>Properties\<close>

subsection \<open>The uninterrupted run is \<^verbatim>\<open>loadProfile\<close>\<close>

lemma run_loadProfile: "run 4 b u w = (Returned, loadProfile b u w)"
  by (simp add: run_def start_def loadProfile_def numeral_eq_Suc Let_def
      split: option.splits)


subsection \<open>What the selects depend on\<close>

lemma select_pending_users_frame:
  "select_pending_users b i (w\<lparr>profile := p\<rparr>) = select_pending_users b i w"
  "select_pending_users b i (w\<lparr>effects := e\<rparr>) = select_pending_users b i w"
  "select_pending_users b i (w\<lparr>isApproved := a\<rparr>) = select_pending_users b i w"
  "select_pending_users b i (w\<lparr>isPendingApproval := q\<rparr>) = select_pending_users b i w"
  "select_pending_users b i (w\<lparr>user := v\<rparr>) = select_pending_users b i w"
  "select_pending_users b i (w\<lparr>session := s\<rparr>) = select_pending_users b i w"
  "select_pending_users b i (w\<lparr>profiles := ps\<rparr>) = select_pending_users b i w"
  by (simp_all add: select_pending_users_def)

lemma select_profiles_frame:
  "select_profiles b i (w\<lparr>profile := p\<rparr>) = select_profiles b i w"
  "select_profiles b i (w\<lparr>effects := e\<rparr>) = select_profiles b i w"
  "select_profiles b i (w\<lparr>isApproved := a\<rparr>) = select_profiles b i w"
  "select_profiles b i (w\<lparr>isPendingApproval := q\<rparr>) = select_profiles b i w"
  "select_profiles b i (w\<lparr>user := v\<rparr>) = select_profiles b i w"
  "select_profiles b i (w\<lparr>session := s\<rparr>) = select_profiles b i w"
  "select_profiles b i (w\<lparr>pending_users := pus\<rparr>) = select_profiles b i w"
  by (simp_all add: select_profiles_def)

lemma select_profiles_cong:
  "profiles w' = profiles w \<Longrightarrow> select_profiles b i w' = select_profiles b i w"
  by (simp add: select_profiles_def)

lemma select_pending_users_cong:
  "pending_users w' = pending_users w \<Longrightarrow>
   select_pending_users b i w' = select_pending_users b i w"
  by (simp add: select_pending_users_def)

lemma select_other_backend:
  "select_profiles b i w = Some d \<Longrightarrow> profiles_fetch_ok b' \<Longrightarrow>
   select_profiles b' i w = Some d"
  "select_pending_users b i w = Some pd \<Longrightarrow> pending_fetch_ok b' \<Longrightarrow>
   select_pending_users b' i w = Some pd"
  by (simp_all add: select_profiles_def select_pending_users_def split: if_splits)

subsection \<open>Signed out\<close>

text \<open>
  C8. When the identity is absent (\<^verbatim>\<open>user\<close> is null), the run ends at once, without
  suspending: it stores profile none, \<^verbatim>\<open>isApproved\<close> null and
  \<^verbatim>\<open>isPendingApproval\<close> false, and makes no call: the recorded calls, the two tables
  and the session are as before.
\<close>

theorem signed_out_resets:
  "loadProfile b None w = w\<lparr>profile := None, isApproved := None, isPendingApproval := False\<rparr>
   \<and> start b None w = (Returned, loadProfile b None w)
   \<and> effects (loadProfile b None w) = effects w
   \<and> profiles (loadProfile b None w) = profiles w
   \<and> pending_users (loadProfile b None w) = pending_users w
   \<and> session (loadProfile b None w) = session w"
  by (simp add: loadProfile_def start_def)

theorem signed_out_resets_witness:
  "loadProfile backend_ok None
     ((mounted [row ''a'' (Some True)] [])
        \<lparr>profile := Some (row ''a'' (Some True)), isApproved := Some True\<rparr>)
   = mounted [row ''a'' (Some True)] []"
  using signed_out_resets [of backend_ok
      "(mounted [row ''a'' (Some True)] [])
         \<lparr>profile := Some (row ''a'' (Some True)), isApproved := Some True\<rparr>"]
  by (simp add: mounted_def)

subsection \<open>A profile that is rejected\<close>




subsection \<open>No decision on the profile: the pending registration decides\<close>





text \<open>
  C7. When \<^verbatim>\<open>is_approved\<close> of the fetched profile is unset and the fetch of the
  pending registration gives no record, the run stores \<^verbatim>\<open>isApproved = true\<close> and
  \<^verbatim>\<open>isPendingApproval = false\<close>. Its only calls are the two selects: no write, no
  \<^verbatim>\<open>signOut\<close>, no toast, no navigation; both tables and the session are unchanged.
\<close>

theorem no_registration_grandfathered:
  assumes "select_profiles b (user_id u) w = Some d"
    and "is_approved d = None"
    and "select_pending_users b (user_id u) w = None"
  shows "loadProfile b (Some u) w =
           w\<lparr>profile := Some d, isApproved := Some True, isPendingApproval := False,
             effects := effects w @
               [Select_profiles (user_id u), Select_pending_users (user_id u)]\<rparr>
         \<and> profiles (loadProfile b (Some u) w) = profiles w
         \<and> pending_users (loadProfile b (Some u) w) = pending_users w
         \<and> session (loadProfile b (Some u) w) = session w"
  using assms
  by (simp add: loadProfile_def select_pending_users_frame)

theorem no_registration_grandfathered_witness:
  "select_profiles backend_ok (user_id (mk_user ''a'')) (mounted [row ''a'' None] [])
     = Some (row ''a'' None)
   \<and> is_approved (row ''a'' None) = None
   \<and> select_pending_users backend_ok (user_id (mk_user ''a'')) (mounted [row ''a'' None] [])
       = None
   \<and> loadProfile backend_ok (Some (mk_user ''a'')) (mounted [row ''a'' None] []) =
       \<lparr>profiles = [row ''a'' None], pending_users = [], session = True, user = None,
        profile = Some (row ''a'' None), isApproved = Some True, isPendingApproval = False,
        effects = [Select_profiles ''a'', Select_pending_users ''a'']\<rparr>"
proof -
  have h1: "select_profiles backend_ok (user_id (mk_user ''a'')) (mounted [row ''a'' None] [])
              = Some (row ''a'' None)"
    by (simp add: select_profiles_def backend_ok_def mk_user_def mounted_def row_def)
  have h2: "is_approved (row ''a'' None) = None"
    by (simp add: row_def)
  have h3: "select_pending_users backend_ok (user_id (mk_user ''a''))
              (mounted [row ''a'' None] []) = None"
    by (simp add: select_pending_users_def backend_ok_def mk_user_def mounted_def)
  from no_registration_grandfathered [OF h1 h2 h3] h1 h2 h3 show ?thesis
    by (simp add: mounted_def mk_user_def)
qed

text \<open>
  C10. When \<^verbatim>\<open>is_approved\<close> of the fetched profile is unset and the pending
  registration fetched has a status that is none of \<^verbatim>\<open>"pending"\<close>,
  \<^verbatim>\<open>"approved"\<close>, \<^verbatim>\<open>"rejected"\<close>, no branch of the chain returns and the run
  reaches the last two statements: \<^verbatim>\<open>isApproved = true\<close>,
  \<^verbatim>\<open>isPendingApproval = false\<close>, with no write, no \<^verbatim>\<open>signOut\<close>, no toast and no
  navigation.
\<close>

theorem unknown_status_grandfathered:
  assumes "select_profiles b (user_id u) w = Some d"
    and "is_approved d = None"
    and "select_pending_users b (user_id u) w = Some pd"
    and "status pd \<noteq> ''pending''"
    and "status pd \<noteq> ''approved''"
    and "status pd \<noteq> ''rejected''"
  shows "loadProfile b (Some u) w =
           w\<lparr>profile := Some d, isApproved := Some True, isPendingApproval := False,
             effects := effects w @
               [Select_profiles (user_id u), Select_pending_users (user_id u)]\<rparr>"
  using assms
  by (simp add: loadProfile_def select_pending_users_frame)

theorem unknown_status_grandfathered_witness:
  "select_profiles backend_ok (user_id (mk_user ''a''))
     (mounted [row ''a'' None] [pending_row ''a'' ''Pending'']) = Some (row ''a'' None)
   \<and> is_approved (row ''a'' None) = None
   \<and> select_pending_users backend_ok (user_id (mk_user ''a''))
       (mounted [row ''a'' None] [pending_row ''a'' ''Pending''])
       = Some (pending_row ''a'' ''Pending'')
   \<and> status (pending_row ''a'' ''Pending'') \<noteq> ''pending''
   \<and> status (pending_row ''a'' ''Pending'') \<noteq> ''approved''
   \<and> status (pending_row ''a'' ''Pending'') \<noteq> ''rejected''
   \<and> loadProfile backend_ok (Some (mk_user ''a''))
       (mounted [row ''a'' None] [pending_row ''a'' ''Pending'']) =
       \<lparr>profiles = [row ''a'' None], pending_users = [pending_row ''a'' ''Pending''],
        session = True, user = None,
        profile = Some (row ''a'' None), isApproved = Some True, isPendingApproval = False,
        effects = [Select_profiles ''a'', Select_pending_users ''a'']\<rparr>"
proof -
  have h1: "select_profiles backend_ok (user_id (mk_user ''a''))
              (mounted [row ''a'' None] [pending_row ''a'' ''Pending'']) = Some (row ''a'' None)"
    by (simp add: select_profiles_def backend_ok_def mk_user_def mounted_def row_def)
  have h2: "is_approved (row ''a'' None) = None"
    by (simp add: row_def)
  have h3: "select_pending_users backend_ok (user_id (mk_user ''a''))
              (mounted [row ''a'' None] [pending_row ''a'' ''Pending''])
              = Some (pending_row ''a'' ''Pending'')"
    by (simp add: select_pending_users_def backend_ok_def mk_user_def mounted_def pending_row_def)
  have h4: "status (pending_row ''a'' ''Pending'') \<noteq> ''pending''"
    by (simp add: pending_row_def)
  have h5: "status (pending_row ''a'' ''Pending'') \<noteq> ''approved''"
    by (simp add: pending_row_def)
  have h6: "status (pending_row ''a'' ''Pending'') \<noteq> ''rejected''"
    by (simp add: pending_row_def)
  from unknown_status_grandfathered [OF h1 h2 h3 h4 h5 h6] h1 h2 h3 h4 h5 h6 show ?thesis
    by (simp add: mounted_def mk_user_def)
qed


subsection \<open>Fetches that fail or find nothing\<close>





subsection \<open>An approved registration is written back\<close>

lemma single_eq_Some: "single xs = Some d \<longleftrightarrow> xs = [d]"
  by (cases xs rule: single.cases) auto

lemma filter_written_rows:
  "filter (\<lambda>r. profile_id r = i)
     (map (\<lambda>r. if profile_id r = i then r\<lparr>is_approved := v\<rparr> else r) ps)
   = map (\<lambda>r. r\<lparr>is_approved := v\<rparr>) (filter (\<lambda>r. profile_id r = i) ps)"
  by (induction ps) auto

lemma select_profiles_after_write:
  assumes "select_profiles b i w = Some d" and "profiles_fetch_ok b'"
  shows "select_profiles b' i
           (w\<lparr>profiles := map (\<lambda>r. if profile_id r = i then r\<lparr>is_approved := v\<rparr> else r)
                            (profiles w)\<rparr>)
         = Some (d\<lparr>is_approved := v\<rparr>)"
proof -
  from assms(1) have "filter (\<lambda>r. profile_id r = i) (profiles w) = [d]"
    by (simp add: select_profiles_def single_eq_Some split: if_splits)
  with assms(2) show ?thesis
    by (simp add: select_profiles_def filter_written_rows)
qed

text \<open>
  C2. When \<^verbatim>\<open>is_approved\<close> of the fetched profile is unset and the pending
  registration fetched has status \<^verbatim>\<open>"approved"\<close>, the run stores
  \<^verbatim>\<open>isApproved = true\<close> and \<^verbatim>\<open>isPendingApproval = false\<close> and writes
  \<^verbatim>\<open>is_approved = true\<close> to the profile; it does not call \<^verbatim>\<open>signOut\<close> (the calls
  are the two selects and the update, and the session is as before). When the store
  accepts the write, a second run for the same identity whose profile fetch goes
  through reads \<^verbatim>\<open>is_approved === true\<close> and returns from that branch: its only call
  is the select of the profile, it leaves the tables as they are, and it stores the same
  \<^verbatim>\<open>isApproved = true\<close>, \<^verbatim>\<open>isPendingApproval = false\<close>. (When the store
  refuses the write, which the run does not notice, a second run whose fetches go through
  takes the same branch as the first and makes the same write again; the approval state
  it stores is the same.)
\<close>

theorem approved_registration_fixed_point:
  assumes "select_profiles b (user_id u) w = Some d"
    and "is_approved d = None"
    and "select_pending_users b (user_id u) w = Some pd"
    and "status pd = ''approved''"
  shows "loadProfile b (Some u) w =
           w\<lparr>profiles :=
               (if update_ok b
                then map (\<lambda>r. if profile_id r = user_id u then r\<lparr>is_approved := Some True\<rparr> else r)
                       (profiles w)
                else profiles w),
             profile := Some d, isApproved := Some True, isPendingApproval := False,
             effects := effects w @
               [Select_profiles (user_id u), Select_pending_users (user_id u),
                Update_profiles (user_id u) True]\<rparr>
         \<and> (update_ok b \<and> profiles_fetch_ok b' \<longrightarrow>
             loadProfile b' (Some u) (loadProfile b (Some u) w) =
               (loadProfile b (Some u) w)
                 \<lparr>profile := Some (d\<lparr>is_approved := Some True\<rparr>),
                  isApproved := Some True, isPendingApproval := False,
                  effects := effects (loadProfile b (Some u) w) @
                    [Select_profiles (user_id u)]\<rparr>)
         \<and> (\<not> update_ok b \<and> profiles_fetch_ok b' \<and> pending_fetch_ok b' \<longrightarrow>
             loadProfile b' (Some u) (loadProfile b (Some u) w) =
               (loadProfile b (Some u) w)
                 \<lparr>profiles :=
                    (if update_ok b'
                     then map (\<lambda>r. if profile_id r = user_id u
                                    then r\<lparr>is_approved := Some True\<rparr> else r) (profiles w)
                     else profiles w),
                  effects := effects (loadProfile b (Some u) w) @
                    [Select_profiles (user_id u), Select_pending_users (user_id u),
                     Update_profiles (user_id u) True]\<rparr>)"
proof -
  let ?w1 = "w\<lparr>profiles :=
               (if update_ok b
                then map (\<lambda>r. if profile_id r = user_id u then r\<lparr>is_approved := Some True\<rparr> else r)
                       (profiles w)
                else profiles w),
             profile := Some d, isApproved := Some True, isPendingApproval := False,
             effects := effects w @
               [Select_profiles (user_id u), Select_pending_users (user_id u),
                Update_profiles (user_id u) True]\<rparr>"
  have first: "loadProfile b (Some u) w = ?w1"
    using assms
    by (simp add: loadProfile_def select_pending_users_frame update_profiles_def)
  have second: "loadProfile b' (Some u) ?w1 =
      ?w1\<lparr>profile := Some (d\<lparr>is_approved := Some True\<rparr>),
          isApproved := Some True, isPendingApproval := False,
          effects := effects ?w1 @ [Select_profiles (user_id u)]\<rparr>"
    if ok: "update_ok b" "profiles_fetch_ok b'"
  proof -
    have "select_profiles b' (user_id u) ?w1 = Some (d\<lparr>is_approved := Some True\<rparr>)"
      using select_profiles_after_write [OF assms(1) ok(2), of "Some True"] ok(1)
      by (simp add: select_profiles_frame)
    then show ?thesis
      by (simp add: loadProfile_def)
  qed
  have again: "loadProfile b' (Some u) ?w1 =
      ?w1\<lparr>profiles :=
            (if update_ok b'
             then map (\<lambda>r. if profile_id r = user_id u
                            then r\<lparr>is_approved := Some True\<rparr> else r) (profiles w)
             else profiles w),
          effects := effects ?w1 @
            [Select_profiles (user_id u), Select_pending_users (user_id u),
             Update_profiles (user_id u) True]\<rparr>"
    if refused: "\<not> update_ok b" and ok: "profiles_fetch_ok b'" "pending_fetch_ok b'"
  proof -
    have "select_profiles b' (user_id u) ?w1 = select_profiles b' (user_id u) w"
      by (rule select_profiles_cong) (use refused in simp)
    also have "\<dots> = Some d"
      by (rule select_other_backend(1) [OF assms(1) ok(1)])
    finally have p: "select_profiles b' (user_id u) ?w1 = Some d" .
    have "select_pending_users b' (user_id u) ?w1 = select_pending_users b' (user_id u) w"
      by (rule select_pending_users_cong) simp
    also have "\<dots> = Some pd"
      by (rule select_other_backend(2) [OF assms(3) ok(2)])
    finally have q: "select_pending_users b' (user_id u) ?w1 = Some pd" .
    from p q assms(2) assms(4) refused show ?thesis
      by (simp add: loadProfile_def select_pending_users_frame update_profiles_def)
  qed
  from first second again show ?thesis by simp
qed

theorem approved_registration_fixed_point_witness:
  "select_profiles backend_ok (user_id (mk_user ''a''))
     (mounted [row ''a'' None] [pending_row ''a'' ''approved'']) = Some (row ''a'' None)
   \<and> is_approved (row ''a'' None) = None
   \<and> select_pending_users backend_ok (user_id (mk_user ''a''))
       (mounted [row ''a'' None] [pending_row ''a'' ''approved''])
       = Some (pending_row ''a'' ''approved'')
   \<and> status (pending_row ''a'' ''approved'') = ''approved''
   \<and> update_ok backend_ok \<and> profiles_fetch_ok backend_ok
   \<and> loadProfile backend_ok (Some (mk_user ''a''))
       (mounted [row ''a'' None] [pending_row ''a'' ''approved'']) =
       \<lparr>profiles = [row ''a'' (Some True)], pending_users = [pending_row ''a'' ''approved''],
        session = True, user = None,
        profile = Some (row ''a'' None), isApproved = Some True, isPendingApproval = False,
        effects = [Select_profiles ''a'', Select_pending_users ''a'',
                   Update_profiles ''a'' True]\<rparr>
   \<and> loadProfile backend_ok (Some (mk_user ''a''))
       (loadProfile backend_ok (Some (mk_user ''a''))
         (mounted [row ''a'' None] [pending_row ''a'' ''approved''])) =
       \<lparr>profiles = [row ''a'' (Some True)], pending_users = [pending_row ''a'' ''approved''],
        session = True, user = None,
        profile = Some (row ''a'' (Some True)), isApproved = Some True,
        isPendingApproval = False,
        effects = [Select_profiles ''a'', Select_pending_users ''a'',
                   Update_profiles ''a'' True, Select_profiles ''a'']\<rparr>"
proof -
  have h1: "select_profiles backend_ok (user_id (mk_user ''a''))
     (mounted [row ''a'' None] [pending_row ''a'' ''approved'']) = Some (row ''a'' None)"
    by (simp add: select_profiles_def backend_ok_def mk_user_def mounted_def row_def)
  have h2: "is_approved (row ''a'' None) = None"
    by (simp add: row_def)
  have h3: "select_pending_users backend_ok (user_id (mk_user ''a''))
       (mounted [row ''a'' None] [pending_row ''a'' ''approved''])
       = Some (pending_row ''a'' ''approved'')"
    by (simp add: select_pending_users_def backend_ok_def mk_user_def mounted_def pending_row_def)
  have h4: "status (pending_row ''a'' ''approved'') = ''approved''"
    by (simp add: pending_row_def)
  have h5: "update_ok backend_ok \<and> profiles_fetch_ok backend_ok"
    by (simp add: backend_ok_def)
  note fp = approved_registration_fixed_point [OF h1 h2 h3 h4, of backend_ok]
  from fp have c1: "loadProfile backend_ok (Some (mk_user ''a''))
       (mounted [row ''a'' None] [pending_row ''a'' ''approved'']) =
       \<lparr>profiles = [row ''a'' (Some True)], pending_users = [pending_row ''a'' ''approved''],
        session = True, user = None,
        profile = Some (row ''a'' None), isApproved = Some True, isPendingApproval = False,
        effects = [Select_profiles ''a'', Select_pending_users ''a'',
                   Update_profiles ''a'' True]\<rparr>"
    by (simp add: mounted_def mk_user_def row_def backend_ok_def)
  from fp h5 have "loadProfile backend_ok (Some (mk_user ''a''))
       (loadProfile backend_ok (Some (mk_user ''a''))
         (mounted [row ''a'' None] [pending_row ''a'' ''approved''])) =
       (loadProfile backend_ok (Some (mk_user ''a''))
         (mounted [row ''a'' None] [pending_row ''a'' ''approved'']))
         \<lparr>profile := Some ((row ''a'' None)\<lparr>is_approved := Some True\<rparr>),
          isApproved := Some True, isPendingApproval := False,
          effects := effects (loadProfile backend_ok (Some (mk_user ''a''))
              (mounted [row ''a'' None] [pending_row ''a'' ''approved''])) @
            [Select_profiles (user_id (mk_user ''a''))]\<rparr>"
    by blast
  then have c2: "loadProfile backend_ok (Some (mk_user ''a''))
       (loadProfile backend_ok (Some (mk_user ''a''))
         (mounted [row ''a'' None] [pending_row ''a'' ''approved''])) =
       \<lparr>profiles = [row ''a'' (Some True)], pending_users = [pending_row ''a'' ''approved''],
        session = True, user = None,
        profile = Some (row ''a'' (Some True)), isApproved = Some True,
        isPendingApproval = False,
        effects = [Select_profiles ''a'', Select_pending_users ''a'',
                   Update_profiles ''a'' True, Select_profiles ''a'']\<rparr>"
    unfolding c1 by (simp add: row_def mk_user_def)
  from h1 h2 h3 h4 h5 c1 c2 show ?thesis by blast
qed


subsection \<open>The pending flag\<close>

lemma unset_if_neither: "a \<noteq> Some True \<Longrightarrow> a \<noteq> Some False \<Longrightarrow> a = None"
  by (cases a) auto

lemma start_keeps_pending_implies_rejected:
  "pending_implies_rejected w \<Longrightarrow> pending_implies_rejected (snd (start b u w))"
  by (simp add: pending_implies_rejected_def start_def split: option.splits)

lemma resume_keeps_pending_implies_rejected:
  "pending_implies_rejected w \<Longrightarrow> pending_implies_rejected (snd (resume b u p w))"
  by (cases p)
    (simp_all add: pending_implies_rejected_def signOut_def update_profiles_def toast_def
      navigate_def Let_def split: option.splits)

lemma resumes_keeps_pending_implies_rejected:
  "pending_implies_rejected (snd s) \<Longrightarrow> pending_implies_rejected (snd (resumes n b u s))"
  by (induction n arbitrary: s) (simp_all add: resume_keeps_pending_implies_rejected)

lemma loadProfile_keeps_pending_implies_rejected:
  assumes "pending_implies_rejected w"
  shows "pending_implies_rejected (loadProfile b u w)"
proof -
  have "loadProfile b u w = snd (run 4 b u w)"
    by (simp add: run_loadProfile)
  also have "pending_implies_rejected \<dots>"
    using assms
    by (cases u)
      (simp_all add: run_def start_keeps_pending_implies_rejected
        resumes_keeps_pending_implies_rejected)
  finally show ?thesis .
qed

lemma user_update_keeps_pending_implies_rejected:
  "pending_implies_rejected (w\<lparr>user := u\<rparr>) = pending_implies_rejected w"
  by (simp add: pending_implies_rejected_def)

lemma reconcile_all_keeps_pending_implies_rejected:
  "pending_implies_rejected w \<Longrightarrow> pending_implies_rejected (reconcile_all rs w)"
proof (induction rs arbitrary: w)
  case Nil
  then show ?case by simp
next
  case (Cons r rs)
  obtain u b where r: "r = (u, b)" by (cases r)
  from Cons.prems have "pending_implies_rejected (loadProfile b u (w\<lparr>user := u\<rparr>))"
    by (simp add: loadProfile_keeps_pending_implies_rejected
        user_update_keeps_pending_implies_rejected)
  then show ?case
    using Cons.IH r by simp
qed

lemma act_keeps_pending_implies_rejected:
  "pending_implies_rejected (fst s) \<Longrightarrow> pending_implies_rejected (fst (act a s))"
proof (cases s)
  case (Pair w ts)
  assume inv: "pending_implies_rejected (fst s)"
  show ?thesis
  proof (cases a)
    case (Trigger u b)
    have "pending_implies_rejected (snd (start b u (w\<lparr>user := u\<rparr>)))"
      using inv Pair
      by (simp add: start_keeps_pending_implies_rejected
          user_update_keeps_pending_implies_rejected)
    then show ?thesis
      using Pair Trigger by (simp add: case_prod_beta)
  next
    case (Resume n)
    then show ?thesis
      using inv Pair
      by (simp add: case_prod_beta Let_def resume_keeps_pending_implies_rejected)
  qed
qed

lemma exec_keeps_pending_implies_rejected:
  "pending_implies_rejected (fst s) \<Longrightarrow> pending_implies_rejected (fst (exec as s))"
  by (induction as arbitrary: s) (simp_all add: act_keeps_pending_implies_rejected)

lemma mounted_pending_implies_rejected: "pending_implies_rejected (mounted ps pus)"
  by (simp add: pending_implies_rejected_def mounted_def)

text \<open>
  C9. After every completed run, from the state in which the hook is mounted, the
  pending flag is true only together with \<^verbatim>\<open>isApproved = false\<close> (first conjunct);
  the same holds at every moment of runs that overlap (second conjunct). A run of
  \<^verbatim>\<open>loadProfile\<close> that sets the approval state at all (the identity is absent, or its
  profile is found) establishes this whatever the state before (third conjunct; with no
  profile found the run leaves both values as they were). The flag is true after a run
  only when the run took the branch of the pending registration, or found no profile and
  the flag was true before (fourth conjunct).
\<close>

theorem pending_flag_only_with_rejected:
  "pending_implies_rejected (reconcile_all rs (mounted ps pus))
   \<and> pending_implies_rejected (fst (exec as (mounted ps pus, [])))
   \<and> ((case u of None \<Rightarrow> True | Some x \<Rightarrow> select_profiles b (user_id x) w \<noteq> None) \<longrightarrow>
        pending_implies_rejected (loadProfile b u w))
   \<and> (isPendingApproval (loadProfile b u w) \<longrightarrow>
        (\<exists>x. u = Some x \<and>
          (case select_profiles b (user_id x) w of
             None \<Rightarrow> isPendingApproval w
           | Some d \<Rightarrow> is_approved d = None \<and>
               (\<exists>pd. select_pending_users b (user_id x) w = Some pd
                  \<and> status pd = ''pending''))))"
proof (intro conjI)
  show "pending_implies_rejected (reconcile_all rs (mounted ps pus))"
    by (simp add: reconcile_all_keeps_pending_implies_rejected mounted_pending_implies_rejected)
  show "pending_implies_rejected (fst (exec as (mounted ps pus, [])))"
    by (simp add: exec_keeps_pending_implies_rejected mounted_pending_implies_rejected)
  show "(case u of None \<Rightarrow> True | Some x \<Rightarrow> select_profiles b (user_id x) w \<noteq> None) \<longrightarrow>
        pending_implies_rejected (loadProfile b u w)"
    by (auto simp: loadProfile_def pending_implies_rejected_def signOut_def update_profiles_def
        toast_def navigate_def Let_def split: option.splits)
  show "isPendingApproval (loadProfile b u w) \<longrightarrow>
        (\<exists>x. u = Some x \<and>
          (case select_profiles b (user_id x) w of
             None \<Rightarrow> isPendingApproval w
           | Some d \<Rightarrow> is_approved d = None \<and>
               (\<exists>pd. select_pending_users b (user_id x) w = Some pd
                  \<and> status pd = ''pending'')))"
    by (auto simp: loadProfile_def signOut_def update_profiles_def select_pending_users_frame
        toast_def navigate_def Let_def split: option.splits if_splits intro: unset_if_neither)
qed


theorem pending_flag_only_with_rejected_witness:
  "isPendingApproval
     (reconcile_all [(None, backend_ok), (Some (mk_user ''a''), backend_ok)]
        (mounted [row ''a'' None] [pending_row ''a'' ''pending'']))
   \<and> isApproved
     (reconcile_all [(None, backend_ok), (Some (mk_user ''a''), backend_ok)]
        (mounted [row ''a'' None] [pending_row ''a'' ''pending''])) = Some False"
proof -
  have p: "isPendingApproval
     (reconcile_all [(None, backend_ok), (Some (mk_user ''a''), backend_ok)]
        (mounted [row ''a'' None] [pending_row ''a'' ''pending'']))"
    by (simp add: loadProfile_def select_profiles_def select_pending_users_def signOut_def
        toast_def navigate_def mounted_def row_def pending_row_def mk_user_def backend_ok_def)
  have "pending_implies_rejected
     (reconcile_all [(None, backend_ok), (Some (mk_user ''a''), backend_ok)]
        (mounted [row ''a'' None] [pending_row ''a'' ''pending'']))"
    using pending_flag_only_with_rejected
      [where rs = "[(None, backend_ok), (Some (mk_user ''a''), backend_ok)]"
         and ps = "[row ''a'' None]" and pus = "[pending_row ''a'' ''pending'']"]
    by blast
  with p show ?thesis
    by (simp add: pending_implies_rejected_def)
qed

subsection \<open>A run that is resumed after a later run has returned\<close>












end
